theory Spec2Isabelle
  imports Main
begin

section \<open>Slack socket-mode trigger nodes\<close>

text \<open>
  The repository holds two trigger nodes, \<open>SlackSocketDashTrigger\<close> and
  \<open>SlackSocketTriggerV2Trigger\<close>. Each has one method, \<open>trigger\<close>, which talks to
  the workflow host (\<open>this\<close>) and to the messaging SDK's \<open>App\<close> object. The embedding
  makes every such call an entry of a trace, and every \<open>throw\<close> an \<open>Inl\<close> result.
  Definitions of the first file carry the suffix \<open>_dash\<close>, those of the second \<open>_v2\<close>.
\<close>

subsection \<open>Data\<close>

text \<open>A thrown value.\<close>

datatype error = Error string

text \<open>Values of type \<open>any\<close>.\<close>

datatype json =
    JNull
  | JBool bool
  | JNum int
  | JStr string
  | JArr "json list"
  | JObj "(string \<times> json) list"

text \<open>\<open>interface SlackCredential\<close>.\<close>

record slack_credential =
  botToken :: string
  appToken :: string
  signingSecret :: string

text \<open>The options object given to \<open>new App\<close>.\<close>

record app_options =
  opt_token :: string
  opt_signingSecret :: string
  opt_appToken :: string
  opt_socketMode :: bool

text \<open>
  The regular expressions of the host language, as far as the literal \<open>/.*/\<close> and its
  derivatives need them. \<open>RStar RDot\<close> is \<open>/.*/\<close>.
\<close>

datatype regexp =
    RNone
  | REps
  | RDot
  | RSeq regexp regexp
  | RAlt regexp regexp
  | RStar regexp

text \<open>The first argument of \<open>app.command\<close>: a string or a regular expression.\<close>

datatype pattern = PString string | PRegExp regexp

text \<open>
  The object \<open>{ command, body, context, payload }\<close> built by \<open>process\<close>: a property the
  event did not carry is \<open>undefined\<close>, here \<open>None\<close>. The field for \<open>context\<close> is named
  \<open>context_\<close>, since \<open>context\<close> is a reserved word here.
\<close>

record event_data =
  command :: "json option"
  body :: "json option"
  context_ :: "json option"
  payload :: "json option"

text \<open>An item of the host's execution data: \<open>{ json: ... }\<close>.\<close>

record node_execution_data =
  json :: event_data

text \<open>
  Every call of the code on the host or on the SDK, in the order it is made.
\<close>

datatype call =
    GetCredentials string
  | NewApp app_options
  | GetNodeParameter string string
  | AppCommand pattern
  | GetMode
  | AppStart
  | AppStop
  | LoggerInfo string
  | LoggerError string error
  | Ack
  | Emit "node_execution_data list list"

text \<open>
  An effectful computation: it reads the trace so far, and returns a value or a thrown
  error together with the extended trace.
\<close>

type_synonym 'a io = "call list \<Rightarrow> (error + 'a) \<times> call list"

text \<open>
  The argument the SDK hands to a listener. \<open>ack\<close> is the outcome of calling the
  event's acknowledgement function (\<open>None\<close>: it resolves, \<open>Some e\<close>: it throws \<open>e\<close>);
  \<open>props\<close> are the other properties of the object, by name (the first entry of a name
  counts).
\<close>

record args =
  ack :: "error option"
  props :: "(string \<times> json) list"

type_synonym handler = "args \<Rightarrow> unit io"

text \<open>The kinds of listener the SDK knows, and the \<open>App\<close> object with its listeners.\<close>

datatype listener_kind = CommandListener | EventListener | ActionListener

record app =
  options :: app_options
  listeners :: "(listener_kind \<times> pattern \<times> handler) list"

text \<open>
  The host side, \<open>this: ITriggerFunctions\<close>: the outcome of looking up the node's
  credential in the host's store (the lookup may throw), the node parameters as
  configured, by name, and the execution mode.
\<close>

record host =
  credentials :: "error + slack_credential"
  parameters :: "(string \<times> string) list"
  mode :: string

text \<open>What \<open>trigger\<close> returns, \<open>ITriggerResponse\<close>. Each function takes the outcome of
  the SDK call it makes (\<open>None\<close>: the call resolves, \<open>Some e\<close>: it throws \<open>e\<close>).\<close>

record trigger_response =
  closeFunction :: "error option \<Rightarrow> unit io"
  manualTriggerFunction :: "error option \<Rightarrow> unit io"

text \<open>
  The response together with the \<open>App\<close> object that \<open>trigger\<close> built: the SDK keeps it
  and dispatches inbound events to its listeners.
\<close>

record trigger_result =
  response :: trigger_response
  the_app :: app

subsection \<open>Sequencing, throw and try/catch\<close>

definition return_io :: "'a \<Rightarrow> 'a io" where
  "return_io x tr = (Inr x, tr)"

definition throw :: "error \<Rightarrow> 'a io" where
  "throw e tr = (Inl e, tr)"

definition bind_io :: "'a io \<Rightarrow> ('a \<Rightarrow> 'b io) \<Rightarrow> 'b io" where
  "bind_io m k tr =
     (case m tr of
        (Inl e, tr') \<Rightarrow> (Inl e, tr')
      | (Inr x, tr') \<Rightarrow> k x tr')"

definition try_catch :: "'a io \<Rightarrow> (error \<Rightarrow> 'a io) \<Rightarrow> 'a io" where
  "try_catch m h tr =
     (case m tr of
        (Inl e, tr') \<Rightarrow> h e tr'
      | (Inr x, tr') \<Rightarrow> (Inr x, tr'))"

subsection \<open>The host's and the SDK's operations\<close>

text \<open>
  Each operation appends its call to the trace. Of the calls the code makes, the
  credential lookup, \<open>ack\<close>, \<open>app.start\<close> and \<open>app.stop\<close> may throw; the parameter and
  mode reads, the logger, \<open>emit\<close>, \<open>new App\<close> and \<open>app.command\<close> are taken to return.
\<close>

definition getCredentials :: "host \<Rightarrow> string \<Rightarrow> slack_credential io" where
  "getCredentials this name tr = (credentials this, tr @ [GetCredentials name])"

text \<open>The value of a node parameter: the fallback when the parameter is not set.\<close>

definition parameter_value :: "host \<Rightarrow> string \<Rightarrow> string \<Rightarrow> string" where
  "parameter_value this name fallback =
     (case map_of (parameters this) name of None \<Rightarrow> fallback | Some v \<Rightarrow> v)"

definition getNodeParameter :: "host \<Rightarrow> string \<Rightarrow> string \<Rightarrow> string io" where
  "getNodeParameter this name fallback tr =
     (Inr (parameter_value this name fallback), tr @ [GetNodeParameter name fallback])"

definition getMode :: "host \<Rightarrow> string io" where
  "getMode this tr = (Inr (mode this), tr @ [GetMode])"

definition logger_info :: "string \<Rightarrow> unit io" where
  "logger_info msg tr = (Inr (), tr @ [LoggerInfo msg])"

definition logger_error :: "string \<Rightarrow> error \<Rightarrow> unit io" where
  "logger_error msg e tr = (Inr (), tr @ [LoggerError msg e])"

definition emit :: "node_execution_data list list \<Rightarrow> unit io" where
  "emit d tr = (Inr (), tr @ [Emit d])"

text \<open>
  Modelled from the spec: the host helper \<open>returnJsonArray\<close> is not part of the
  sources; the structure is forwarded "as a single-item batch", so the helper wraps the
  object it is given into one item.
\<close>

definition returnJsonArray :: "event_data \<Rightarrow> node_execution_data list" where
  "returnJsonArray d = [\<lparr>json = d\<rparr>]"

definition call_ack :: "args \<Rightarrow> unit io" where
  "call_ack params tr =
     ((case ack params of None \<Rightarrow> Inr () | Some e \<Rightarrow> Inl e), tr @ [Ack])"

definition new_App :: "app_options \<Rightarrow> app io" where
  "new_App opts tr = (Inr \<lparr>options = opts, listeners = []\<rparr>, tr @ [NewApp opts])"

definition app_command :: "app \<Rightarrow> pattern \<Rightarrow> handler \<Rightarrow> app io" where
  "app_command a p h tr =
     (Inr (a\<lparr>listeners := listeners a @ [(CommandListener, p, h)]\<rparr>), tr @ [AppCommand p])"

definition app_start :: "error option \<Rightarrow> unit io" where
  "app_start outcome tr =
     ((case outcome of None \<Rightarrow> Inr () | Some e \<Rightarrow> Inl e), tr @ [AppStart])"

definition app_stop :: "error option \<Rightarrow> unit io" where
  "app_stop outcome tr =
     ((case outcome of None \<Rightarrow> Inr () | Some e \<Rightarrow> Inl e), tr @ [AppStop])"

text \<open>
  Modelled from the spec: the SDK's dispatch is not part of the sources. A listener
  registered under a string runs for the command of exactly that name, one registered
  under a regular expression runs when the expression matches somewhere in the name
  ("only matching commands invoke the handler"). \<open>.\<close> matches every character but a line
  terminator.
\<close>

definition line_terminator :: "char \<Rightarrow> bool" where
  "line_terminator c = (c = CHR 0x0A \<or> c = CHR 0x0D)"

fun nullable :: "regexp \<Rightarrow> bool" where
  "nullable RNone = False"
| "nullable REps = True"
| "nullable RDot = False"
| "nullable (RSeq r s) = (nullable r \<and> nullable s)"
| "nullable (RAlt r s) = (nullable r \<or> nullable s)"
| "nullable (RStar r) = True"

fun deriv :: "char \<Rightarrow> regexp \<Rightarrow> regexp" where
  "deriv c RNone = RNone"
| "deriv c REps = RNone"
| "deriv c RDot = (if line_terminator c then RNone else REps)"
| "deriv c (RSeq r s) =
     (if nullable r then RAlt (RSeq (deriv c r) s) (deriv c s) else RSeq (deriv c r) s)"
| "deriv c (RAlt r s) = RAlt (deriv c r) (deriv c s)"
| "deriv c (RStar r) = RSeq (deriv c r) (RStar r)"

fun match_prefix :: "regexp \<Rightarrow> string \<Rightarrow> bool" where
  "match_prefix r [] = nullable r"
| "match_prefix r (c # cs) = (nullable r \<or> match_prefix (deriv c r) cs)"

fun regexp_test :: "regexp \<Rightarrow> string \<Rightarrow> bool" where
  "regexp_test r [] = nullable r"
| "regexp_test r (c # cs) = (match_prefix r (c # cs) \<or> regexp_test r cs)"

fun matchesPattern :: "pattern \<Rightarrow> string \<Rightarrow> bool" where
  "matchesPattern (PString p) candidate = (p = candidate)"
| "matchesPattern (PRegExp r) candidate = regexp_test r candidate"

text \<open>
  The listeners of kind \<open>k\<close> that an inbound event named \<open>name\<close> reaches, and their run,
  one after the other; a listener that throws ends it.
\<close>

definition matching :: "app \<Rightarrow> listener_kind \<Rightarrow> string \<Rightarrow> handler list" where
  "matching a k name =
     map (\<lambda>(k', p, h). h) (filter (\<lambda>(k', p, h). k' = k \<and> matchesPattern p name) (listeners a))"

fun run_handlers :: "handler list \<Rightarrow> args \<Rightarrow> unit io" where
  "run_handlers [] params = return_io ()"
| "run_handlers (h # hs) params = bind_io (h params) (\<lambda>_. run_handlers hs params)"

definition dispatch :: "app \<Rightarrow> listener_kind \<Rightarrow> string \<Rightarrow> args \<Rightarrow> unit io" where
  "dispatch a k name params = run_handlers (matching a k name) params"

subsection \<open>SlackSocketDashTrigger\<close>

text \<open>\<open>process\<close>, lines 86 to 102: acknowledge, then emit.\<close>

definition process_dash :: "args \<Rightarrow> unit io" where
  "process_dash params =
     bind_io (call_ack params) (\<lambda>_.
     emit [returnJsonArray
       \<lparr>command = map_of (props params) ''command'',
        body = map_of (props params) ''body'',
        context_ = map_of (props params) ''context'',
        payload = map_of (props params) ''payload''\<rparr>])"

definition handler_dash :: handler where
  "handler_dash a = process_dash a"

text \<open>\<open>manualTriggerFunction\<close>, lines 129 to 149.\<close>

definition manualTriggerFunction_dash :: "error option \<Rightarrow> unit io" where
  "manualTriggerFunction_dash start_outcome =
     bind_io
       (try_catch
          (bind_io (app_start start_outcome) (\<lambda>_.
           logger_info ''Started Slack Socket app in test mode''))
          (\<lambda>e. bind_io (logger_error ''Error starting Slack Socket app in test mode:'' e) (\<lambda>_.
                throw e)))
       (\<lambda>_. return_io ())"

text \<open>\<open>closeFunction\<close>, lines 151 to 158.\<close>

definition closeFunction_dash :: "error option \<Rightarrow> unit io" where
  "closeFunction_dash stop_outcome =
     try_catch
       (bind_io (app_stop stop_outcome) (\<lambda>_.
        logger_info ''Stopped Slack Socket app''))
       (\<lambda>e. logger_error ''Error stopping Slack Socket app:'' e)"

text \<open>
  \<open>trigger\<close>, lines 76 to 164. \<open>start_outcome\<close> is the outcome of the \<open>app.start()\<close> of
  trigger mode, should the call be made.
\<close>

definition trigger_dash :: "host \<Rightarrow> error option \<Rightarrow> trigger_result io" where
  "trigger_dash this start_outcome =
     bind_io (getCredentials this ''slackSocketCredentialsApi'') (\<lambda>creds.
     bind_io (new_App \<lparr>opt_token = botToken creds, opt_signingSecret = signingSecret creds,
                       opt_appToken = appToken creds, opt_socketMode = True\<rparr>) (\<lambda>a.
     bind_io (getNodeParameter this ''slashCommandName'' '''') (\<lambda>slashCommandName.
     bind_io (if slashCommandName \<noteq> ''''
              then app_command a (PString slashCommandName) handler_dash
              else app_command a (PRegExp (RStar RDot)) handler_dash) (\<lambda>a.
     bind_io (getMode this) (\<lambda>m.
     bind_io (if m = ''trigger''
              then try_catch
                     (bind_io (app_start start_outcome) (\<lambda>_.
                      logger_info ''Started Slack Socket app in trigger mode''))
                     (\<lambda>e. bind_io
                        (logger_error ''Error starting Slack Socket app in trigger mode:'' e) (\<lambda>_.
                         throw e))
              else return_io ()) (\<lambda>_.
     return_io
       \<lparr>response = \<lparr>closeFunction = closeFunction_dash,
                     manualTriggerFunction = manualTriggerFunction_dash\<rparr>,
        the_app = a\<rparr>))))))"

subsection \<open>SlackSocketTriggerV2Trigger\<close>

text \<open>\<open>process\<close>, lines 86 to 102.\<close>

definition process_v2 :: "args \<Rightarrow> unit io" where
  "process_v2 params =
     bind_io (call_ack params) (\<lambda>_.
     emit [returnJsonArray
       \<lparr>command = map_of (props params) ''command'',
        body = map_of (props params) ''body'',
        context_ = map_of (props params) ''context'',
        payload = map_of (props params) ''payload''\<rparr>])"

definition handler_v2 :: handler where
  "handler_v2 a = process_v2 a"

text \<open>\<open>setupEventListeners\<close>, lines 104 to 116.\<close>

definition setupEventListeners_v2 :: "host \<Rightarrow> app \<Rightarrow> app io" where
  "setupEventListeners_v2 this a =
     bind_io (getNodeParameter this ''slashCommandName'' '''') (\<lambda>slashCommandName.
     if slashCommandName \<noteq> ''''
     then app_command a (PString slashCommandName) handler_v2
     else app_command a (PRegExp (RStar RDot)) handler_v2)"

text \<open>\<open>manualTriggerFunction\<close>, lines 120 to 131.\<close>

definition manualTriggerFunction_v2 :: "error option \<Rightarrow> unit io" where
  "manualTriggerFunction_v2 start_outcome =
     bind_io
       (try_catch
          (bind_io (app_start start_outcome) (\<lambda>_.
           logger_info ''Started Slack Socket app in test mode''))
          (\<lambda>e. logger_error ''Error starting Slack Socket app in test mode:'' e))
       (\<lambda>_. return_io ())"

text \<open>\<open>closeFunction\<close>, lines 142 to 149.\<close>

definition closeFunction_v2 :: "error option \<Rightarrow> unit io" where
  "closeFunction_v2 stop_outcome =
     try_catch
       (bind_io (app_stop stop_outcome) (\<lambda>_.
        logger_info ''Stopped Slack Socket app''))
       (\<lambda>e. logger_error ''Error stopping Slack Socket app:'' e)"

text \<open>\<open>trigger\<close>, lines 76 to 155.\<close>

definition trigger_v2 :: "host \<Rightarrow> error option \<Rightarrow> trigger_result io" where
  "trigger_v2 this start_outcome =
     bind_io (getCredentials this ''slackSocketCredentialsApi'') (\<lambda>creds.
     bind_io (new_App \<lparr>opt_token = botToken creds, opt_signingSecret = signingSecret creds,
                       opt_appToken = appToken creds, opt_socketMode = True\<rparr>) (\<lambda>a.
     bind_io (setupEventListeners_v2 this a) (\<lambda>a.
     bind_io (getMode this) (\<lambda>m.
     bind_io (if m = ''trigger''
              then try_catch
                     (bind_io (app_start start_outcome) (\<lambda>_.
                      logger_info ''Started Slack Socket app in trigger mode''))
                     (\<lambda>e. logger_error ''Error starting Slack Socket app in trigger mode:'' e)
              else return_io ()) (\<lambda>_.
     return_io
       \<lparr>response = \<lparr>closeFunction = closeFunction_v2,
                     manualTriggerFunction = manualTriggerFunction_v2\<rparr>,
        the_app = a\<rparr>)))))"

subsection \<open>A node in use\<close>

text \<open>
  What the host and the SDK do with a node once \<open>trigger\<close> has returned: the host runs
  the manual trigger or the close function, the SDK delivers an inbound event of some
  kind and name.
\<close>

datatype step =
    ManualTrigger "error option"
  | Close "error option"
  | Inbound listener_kind string args

fun run_step :: "trigger_result \<Rightarrow> step \<Rightarrow> unit io" where
  "run_step s (ManualTrigger outcome) = manualTriggerFunction (response s) outcome"
| "run_step s (Close outcome) = closeFunction (response s) outcome"
| "run_step s (Inbound k name params) = dispatch (the_app s) k name params"

fun run_steps :: "trigger_result \<Rightarrow> step list \<Rightarrow> call list \<Rightarrow> (error + unit) list \<times> call list" where
  "run_steps s [] tr = ([], tr)"
| "run_steps s (st # sts) tr =
     (case run_step s st tr of (r, tr') \<Rightarrow>
        (case run_steps s sts tr' of (rs, tr'') \<Rightarrow> (r # rs, tr'')))"

text \<open>
  The observable behaviour of a node over a whole use: whether \<open>trigger\<close> threw, the
  result of every later step, and all calls made.
\<close>

definition observe ::
  "(host \<Rightarrow> error option \<Rightarrow> trigger_result io) \<Rightarrow> host \<Rightarrow> error option \<Rightarrow> step list \<Rightarrow>
     (error + unit) \<times> (error + unit) list \<times> call list" where
  "observe trig this start_outcome steps =
     (case trig this start_outcome [] of
        (Inl e, tr) \<Rightarrow> (Inl e, [], tr)
      | (Inr s, tr) \<Rightarrow> (case run_steps s steps tr of (rs, tr') \<Rightarrow> (Inr (), rs, tr')))"

subsection \<open>Notions used in the statements\<close>

text \<open>
  The calls that \<open>trigger\<close> makes, in either file, before it looks at the mode's start:
  credentials, client construction, parameter read, listener registration, mode read.
\<close>

definition setup_calls :: "host \<Rightarrow> slack_credential \<Rightarrow> call list" where
  "setup_calls this c =
     [GetCredentials ''slackSocketCredentialsApi'',
      NewApp \<lparr>opt_token = botToken c, opt_signingSecret = signingSecret c,
              opt_appToken = appToken c, opt_socketMode = True\<rparr>,
      GetNodeParameter ''slashCommandName'' [],
      AppCommand (if parameter_value this ''slashCommandName'' [] \<noteq> []
                  then PString (parameter_value this ''slashCommandName'' [])
                  else PRegExp (RStar RDot)),
      GetMode]"

text \<open>
  A trace in which no \<open>app.start\<close> comes before the first \<open>app.command\<close>; \<open>seen\<close> says
  whether a listener is registered already.
\<close>

fun registered_before_start :: "bool \<Rightarrow> call list \<Rightarrow> bool" where
  "registered_before_start seen [] = True"
| "registered_before_start seen (c # cs) =
     (case c of
        AppCommand p \<Rightarrow> registered_before_start True cs
      | AppStart \<Rightarrow> seen \<and> registered_before_start seen cs
      | _ \<Rightarrow> registered_before_start seen cs)"

text \<open>A step that is not a manual trigger whose \<open>app.start\<close> fails.\<close>

fun start_succeeds :: "step \<Rightarrow> bool" where
  "start_succeeds (ManualTrigger outcome) = (outcome = None)"
| "start_succeeds (Close outcome) = True"
| "start_succeeds (Inbound k name params) = True"

text \<open>
  The \<open>App\<close> object after the listener registration of \<open>trigger\<close>, with \<open>h\<close> the
  registered handler.
\<close>

definition installed_app :: "host \<Rightarrow> slack_credential \<Rightarrow> handler \<Rightarrow> app" where
  "installed_app this c h =
     \<lparr>options = \<lparr>opt_token = botToken c, opt_signingSecret = signingSecret c,
                  opt_appToken = appToken c, opt_socketMode = True\<rparr>,
      listeners = [(CommandListener,
                    (if parameter_value this ''slashCommandName'' [] \<noteq> []
                     then PString (parameter_value this ''slashCommandName'' [])
                     else PRegExp (RStar RDot)), h)]\<rparr>"

subsection \<open>Sample inputs\<close>

text \<open>
  A node configured for the slash command \<open>/deploy\<close> and run in trigger mode, a node
  configured for the trigger type \<open>events\<close>, and an inbound slash command event.
\<close>

definition sample_credential :: slack_credential where
  "sample_credential =
     \<lparr>botToken = ''xoxb-1'', appToken = ''xapp-1'', signingSecret = ''s3cr3t''\<rparr>"

definition sample_host :: host where
  "sample_host =
     \<lparr>credentials = Inr sample_credential,
      parameters = [(''triggerType'', ''slashCommand''), (''slashCommandName'', ''/deploy'')],
      mode = ''trigger''\<rparr>"

definition events_host :: host where
  "events_host =
     \<lparr>credentials = Inr sample_credential,
      parameters = [(''triggerType'', ''events'')],
      mode = ''trigger''\<rparr>"

definition sample_args :: "error option \<Rightarrow> args" where
  "sample_args outcome =
     \<lparr>ack = outcome,
      props = [(''command'', JObj [(''command'', JStr ''/deploy''), (''text'', JStr ''now'')]),
               (''body'', JObj [(''team_id'', JStr ''T1'')]),
               (''respond'', JNull)]\<rparr>"

text \<open>The calls of \<open>trigger\<close> on the sample node up to the mode read, and what it returns.\<close>

definition sample_setup_calls :: "call list" where
  "sample_setup_calls =
     [GetCredentials ''slackSocketCredentialsApi'',
      NewApp \<lparr>opt_token = ''xoxb-1'', opt_signingSecret = ''s3cr3t'',
              opt_appToken = ''xapp-1'', opt_socketMode = True\<rparr>,
      GetNodeParameter ''slashCommandName'' [],
      AppCommand (PString ''/deploy''),
      GetMode]"

definition sample_app :: "handler \<Rightarrow> app" where
  "sample_app h =
     \<lparr>options = \<lparr>opt_token = ''xoxb-1'', opt_signingSecret = ''s3cr3t'',
                  opt_appToken = ''xapp-1'', opt_socketMode = True\<rparr>,
      listeners = [(CommandListener, PString ''/deploy'', h)]\<rparr>"

definition sample_dash :: trigger_result where
  "sample_dash =
     \<lparr>response = \<lparr>closeFunction = closeFunction_dash,
                   manualTriggerFunction = manualTriggerFunction_dash\<rparr>,
      the_app = sample_app handler_dash\<rparr>"

definition sample_v2 :: trigger_result where
  "sample_v2 =
     \<lparr>response = \<lparr>closeFunction = closeFunction_v2,
                   manualTriggerFunction = manualTriggerFunction_v2\<rparr>,
      the_app = sample_app handler_v2\<rparr>"

text \<open>The same for the node configured for the trigger type \<open>events\<close>.\<close>

definition events_setup_calls :: "call list" where
  "events_setup_calls =
     [GetCredentials ''slackSocketCredentialsApi'',
      NewApp \<lparr>opt_token = ''xoxb-1'', opt_signingSecret = ''s3cr3t'',
              opt_appToken = ''xapp-1'', opt_socketMode = True\<rparr>,
      GetNodeParameter ''slashCommandName'' [],
      AppCommand (PRegExp (RStar RDot)),
      GetMode]"

definition events_app :: "handler \<Rightarrow> app" where
  "events_app h =
     \<lparr>options = \<lparr>opt_token = ''xoxb-1'', opt_signingSecret = ''s3cr3t'',
                  opt_appToken = ''xapp-1'', opt_socketMode = True\<rparr>,
      listeners = [(CommandListener, PRegExp (RStar RDot), h)]\<rparr>"

definition events_dash :: trigger_result where
  "events_dash =
     \<lparr>response = \<lparr>closeFunction = closeFunction_dash,
                   manualTriggerFunction = manualTriggerFunction_dash\<rparr>,
      the_app = events_app handler_dash\<rparr>"

definition events_v2 :: trigger_result where
  "events_v2 =
     \<lparr>response = \<lparr>closeFunction = closeFunction_v2,
                   manualTriggerFunction = manualTriggerFunction_v2\<rparr>,
      the_app = events_app handler_v2\<rparr>"

section \<open>Properties\<close>

subsection \<open>What each function does to the trace\<close>

lemmas io_defs =
  return_io_def throw_def bind_io_def try_catch_def getCredentials_def getNodeParameter_def
  getMode_def logger_info_def logger_error_def emit_def call_ack_def new_App_def
  app_command_def app_start_def app_stop_def

lemma handler_dash_run:
  "handler_dash params tr =
     (case ack params of
        None \<Rightarrow> (Inr (), tr @ [Ack, Emit [[\<lparr>json =
                   \<lparr>command = map_of (props params) ''command'',
                    body = map_of (props params) ''body'',
                    context_ = map_of (props params) ''context'',
                    payload = map_of (props params) ''payload''\<rparr>\<rparr>]]])
      | Some e \<Rightarrow> (Inl e, tr @ [Ack]))"
  by (simp add: handler_dash_def process_dash_def returnJsonArray_def io_defs split: option.split)

lemma handler_v2_run:
  "handler_v2 params tr =
     (case ack params of
        None \<Rightarrow> (Inr (), tr @ [Ack, Emit [[\<lparr>json =
                   \<lparr>command = map_of (props params) ''command'',
                    body = map_of (props params) ''body'',
                    context_ = map_of (props params) ''context'',
                    payload = map_of (props params) ''payload''\<rparr>\<rparr>]]])
      | Some e \<Rightarrow> (Inl e, tr @ [Ack]))"
  by (simp add: handler_v2_def process_v2_def returnJsonArray_def io_defs split: option.split)

lemma handler_v2_dash: "handler_v2 = handler_dash"
  by (intro ext) (simp add: handler_dash_run handler_v2_run)

lemma closeFunction_dash_run:
  "closeFunction_dash outcome tr =
     (Inr (), tr @ [AppStop, (case outcome of None \<Rightarrow> LoggerInfo ''Stopped Slack Socket app''
                              | Some e \<Rightarrow> LoggerError ''Error stopping Slack Socket app:'' e)])"
  by (simp add: closeFunction_dash_def io_defs split: option.split)

lemma closeFunction_v2_run:
  "closeFunction_v2 outcome tr =
     (Inr (), tr @ [AppStop, (case outcome of None \<Rightarrow> LoggerInfo ''Stopped Slack Socket app''
                              | Some e \<Rightarrow> LoggerError ''Error stopping Slack Socket app:'' e)])"
  by (simp add: closeFunction_v2_def io_defs split: option.split)

lemma closeFunction_v2_dash: "closeFunction_v2 = closeFunction_dash"
  by (intro ext) (simp add: closeFunction_dash_run closeFunction_v2_run)

lemma manualTriggerFunction_dash_run:
  "manualTriggerFunction_dash outcome tr =
     (case outcome of
        None \<Rightarrow> (Inr (), tr @ [AppStart, LoggerInfo ''Started Slack Socket app in test mode''])
      | Some e \<Rightarrow> (Inl e, tr @ [AppStart,
                      LoggerError ''Error starting Slack Socket app in test mode:'' e]))"
  by (simp add: manualTriggerFunction_dash_def io_defs split: option.split)

lemma manualTriggerFunction_v2_run:
  "manualTriggerFunction_v2 outcome tr =
     (case outcome of
        None \<Rightarrow> (Inr (), tr @ [AppStart, LoggerInfo ''Started Slack Socket app in test mode''])
      | Some e \<Rightarrow> (Inr (), tr @ [AppStart,
                      LoggerError ''Error starting Slack Socket app in test mode:'' e]))"
  by (simp add: manualTriggerFunction_v2_def io_defs split: option.split)

lemma trigger_dash_run:
  "trigger_dash this outcome tr =
     (case credentials this of
        Inl e \<Rightarrow> (Inl e, tr @ [GetCredentials ''slackSocketCredentialsApi''])
      | Inr c \<Rightarrow>
          (if mode this = ''trigger''
           then (case outcome of
                   None \<Rightarrow>
                     (Inr \<lparr>response = \<lparr>closeFunction = closeFunction_dash,
                                        manualTriggerFunction = manualTriggerFunction_dash\<rparr>,
                           the_app = installed_app this c handler_dash\<rparr>,
                      tr @ setup_calls this c @
                        [AppStart, LoggerInfo ''Started Slack Socket app in trigger mode''])
                 | Some e \<Rightarrow>
                     (Inl e, tr @ setup_calls this c @
                        [AppStart,
                         LoggerError ''Error starting Slack Socket app in trigger mode:'' e]))
           else (Inr \<lparr>response = \<lparr>closeFunction = closeFunction_dash,
                                   manualTriggerFunction = manualTriggerFunction_dash\<rparr>,
                      the_app = installed_app this c handler_dash\<rparr>,
                 tr @ setup_calls this c)))"
  by (simp add: trigger_dash_def installed_app_def setup_calls_def io_defs
        split: sum.split option.split)

lemma trigger_v2_run:
  "trigger_v2 this outcome tr =
     (case credentials this of
        Inl e \<Rightarrow> (Inl e, tr @ [GetCredentials ''slackSocketCredentialsApi''])
      | Inr c \<Rightarrow>
          (Inr \<lparr>response = \<lparr>closeFunction = closeFunction_v2,
                             manualTriggerFunction = manualTriggerFunction_v2\<rparr>,
                the_app = installed_app this c handler_v2\<rparr>,
           tr @ setup_calls this c @
             (if mode this = ''trigger''
              then [AppStart,
                    (case outcome of
                       None \<Rightarrow> LoggerInfo ''Started Slack Socket app in trigger mode''
                     | Some e \<Rightarrow>
                         LoggerError ''Error starting Slack Socket app in trigger mode:'' e)]
              else [])))"
  by (simp add: trigger_v2_def setupEventListeners_v2_def installed_app_def setup_calls_def
        io_defs split: sum.split option.split)

text \<open>Neither file reads the parameter \<open>triggerType\<close>.\<close>

lemma trigger_ignores_trigger_type:
  assumes "credentials this' = credentials this" and "mode this' = mode this"
    and "parameter_value this' ''slashCommandName'' [] =
         parameter_value this ''slashCommandName'' []"
  shows "trigger_dash this' outcome tr = trigger_dash this outcome tr"
    and "trigger_v2 this' outcome tr = trigger_v2 this outcome tr"
proof -
  have "installed_app this' = installed_app this" "setup_calls this' = setup_calls this"
    using assms(3) by (simp_all add: installed_app_def setup_calls_def fun_eq_iff)
  with assms(1,2) show "trigger_dash this' outcome tr = trigger_dash this outcome tr"
    and "trigger_v2 this' outcome tr = trigger_v2 this outcome tr"
    by (simp_all add: trigger_dash_run trigger_v2_run split: sum.split option.split)
qed

subsection \<open>Dispatch to the registered listener\<close>

lemma nullable_regexp_test: "nullable r \<Longrightarrow> regexp_test r s"
  by (cases s) simp_all

lemma regexp_test_dot_star: "regexp_test (RStar RDot) candidate"
  by (simp add: nullable_regexp_test)

lemma bind_return_unit: "bind_io (m :: unit io) return_io tr = m tr"
  by (simp add: bind_io_def return_io_def split: prod.split sum.split)

lemma dispatch_installed_app:
  "dispatch (installed_app this c h) k cmd params tr =
     (if k = CommandListener \<and>
         (parameter_value this ''slashCommandName'' [] = [] \<or>
          cmd = parameter_value this ''slashCommandName'' [])
      then h params tr else (Inr (), tr))"
  by (auto simp add: dispatch_def matching_def installed_app_def regexp_test_dot_star
        bind_return_unit return_io_def)

subsection \<open>The sample node\<close>

lemma sample_host_simps:
  "credentials sample_host = Inr sample_credential"
  "mode sample_host = ''trigger''"
  "parameter_value sample_host ''slashCommandName'' [] = ''/deploy''"
  "setup_calls sample_host sample_credential = sample_setup_calls"
  "installed_app sample_host sample_credential h = sample_app h"
  by (simp_all add: sample_host_def parameter_value_def setup_calls_def sample_setup_calls_def
        sample_credential_def installed_app_def sample_app_def)

lemma trigger_dash_sample:
  "trigger_dash sample_host None [] =
     (Inr sample_dash,
      sample_setup_calls @ [AppStart, LoggerInfo ''Started Slack Socket app in trigger mode''])"
  by (simp add: trigger_dash_run sample_host_simps sample_dash_def)

lemma trigger_v2_sample:
  "trigger_v2 sample_host None [] =
     (Inr sample_v2,
      sample_setup_calls @ [AppStart, LoggerInfo ''Started Slack Socket app in trigger mode''])"
  by (simp add: trigger_v2_run sample_host_simps sample_v2_def)

lemma events_host_simps:
  "credentials events_host = Inr sample_credential"
  "mode events_host = ''trigger''"
  "parameter_value events_host ''slashCommandName'' [] = []"
  "parameter_value events_host ''triggerType'' d = ''events''"
  "setup_calls events_host sample_credential = events_setup_calls"
  "installed_app events_host sample_credential h = events_app h"
  by (simp_all add: events_host_def parameter_value_def setup_calls_def events_setup_calls_def
        sample_credential_def installed_app_def events_app_def)

lemma trigger_dash_events:
  "trigger_dash events_host None [] =
     (Inr events_dash,
      events_setup_calls @ [AppStart, LoggerInfo ''Started Slack Socket app in trigger mode''])"
  by (simp add: trigger_dash_run events_host_simps events_dash_def)

lemma trigger_v2_events:
  "trigger_v2 events_host None [] =
     (Inr events_v2,
      events_setup_calls @ [AppStart, LoggerInfo ''Started Slack Socket app in trigger mode''])"
  by (simp add: trigger_v2_run events_host_simps events_v2_def)

lemma dispatch_sample_app:
  "dispatch (sample_app h) k cmd params tr =
     (if k = CommandListener \<and> cmd = ''/deploy'' then h params tr else (Inr (), tr))"
  using dispatch_installed_app [of sample_host sample_credential h k cmd params tr]
  by (simp add: sample_host_simps)

lemma dispatch_events_app:
  "dispatch (events_app h) k cmd params tr =
     (if k = CommandListener then h params tr else (Inr (), tr))"
  using dispatch_installed_app [of events_host sample_credential h k cmd params tr]
  by (simp add: events_host_simps)

subsection \<open>Failure of the connection start\<close>

text \<open>
  C1. In trigger mode, when \<open>app.start()\<close> throws \<open>e\<close>, \<open>trigger\<close> of
  \<open>SlackSocketDashTrigger\<close> logs the error and throws \<open>e\<close>, whereas \<open>trigger\<close> of
  \<open>SlackSocketTriggerV2Trigger\<close> logs the error and returns its response.
\<close>

theorem trigger_start_failure_rethrown_or_swallowed:
  assumes "mode this = ''trigger''" and "credentials this = Inr c"
  shows "trigger_dash this (Some e) tr =
           (Inl e, tr @ setup_calls this c @
              [AppStart, LoggerError ''Error starting Slack Socket app in trigger mode:'' e])
       \<and> (\<exists>s. trigger_v2 this (Some e) tr =
           (Inr s, tr @ setup_calls this c @
              [AppStart, LoggerError ''Error starting Slack Socket app in trigger mode:'' e]))"
  using assms by (simp add: trigger_dash_run trigger_v2_run)

theorem trigger_start_failure_rethrown_or_swallowed_witness:
  "mode sample_host = ''trigger'' \<and> credentials sample_host = Inr sample_credential
   \<and> trigger_dash sample_host (Some (Error ''boom'')) [] =
       (Inl (Error ''boom''),
        sample_setup_calls @
          [AppStart,
           LoggerError ''Error starting Slack Socket app in trigger mode:'' (Error ''boom'')])
   \<and> (\<exists>s. trigger_v2 sample_host (Some (Error ''boom'')) [] =
       (Inr s,
        sample_setup_calls @
          [AppStart,
           LoggerError ''Error starting Slack Socket app in trigger mode:'' (Error ''boom'')]))"
proof -
  have m: "mode sample_host = ''trigger''" and c: "credentials sample_host = Inr sample_credential"
    by (simp_all add: sample_host_simps)
  from trigger_start_failure_rethrown_or_swallowed [OF m c, of "Error ''boom''" "[]"] m c
  show ?thesis by (simp add: sample_host_simps)
qed

text \<open>
  C10. The same holds for the manual trigger: when its \<open>app.start()\<close> throws \<open>e\<close>, the
  \<open>manualTriggerFunction\<close> returned by \<open>SlackSocketDashTrigger\<close> logs the error and
  throws \<open>e\<close>, the one returned by \<open>SlackSocketTriggerV2Trigger\<close> logs the error and
  resolves; the latter resolves whatever the outcome of the start.
\<close>

theorem manual_start_failure_rethrown_or_swallowed:
  "(trigger_dash this outcome tr0 = (Inr s, tr1) \<longrightarrow>
      manualTriggerFunction (response s) (Some e) tr =
        (Inl e, tr @ [AppStart, LoggerError ''Error starting Slack Socket app in test mode:'' e]))
   \<and> (trigger_v2 this outcome tr0 = (Inr s, tr1) \<longrightarrow>
      manualTriggerFunction (response s) (Some e) tr =
        (Inr (), tr @ [AppStart, LoggerError ''Error starting Slack Socket app in test mode:'' e])
      \<and> fst (manualTriggerFunction (response s) start_outcome tr) = Inr ())"
  by (auto simp add: trigger_dash_run trigger_v2_run manualTriggerFunction_dash_run
        manualTriggerFunction_v2_run split: sum.splits option.splits if_splits)

theorem manual_start_failure_rethrown_or_swallowed_witness:
  "manualTriggerFunction (response sample_dash) (Some (Error ''boom'')) [] =
     (Inl (Error ''boom''),
      [AppStart, LoggerError ''Error starting Slack Socket app in test mode:'' (Error ''boom'')])
   \<and> manualTriggerFunction (response sample_v2) (Some (Error ''boom'')) [] =
     (Inr (),
      [AppStart, LoggerError ''Error starting Slack Socket app in test mode:'' (Error ''boom'')])
   \<and> fst (manualTriggerFunction (response sample_v2) None []) = Inr ()"
  using manual_start_failure_rethrown_or_swallowed
      [where this = sample_host and outcome = None and ?tr0.0 = "[]" and s = sample_dash
         and e = "Error ''boom''" and tr = "[]"]
    manual_start_failure_rethrown_or_swallowed
      [where this = sample_host and outcome = None and ?tr0.0 = "[]" and s = sample_v2
         and e = "Error ''boom''" and tr = "[]" and start_outcome = None]
  by (simp add: trigger_dash_sample trigger_v2_sample)

subsection \<open>The handler\<close>

text \<open>
  C2. Every run of a handler that \<open>trigger\<close> registered, in either file, calls the
  acknowledgement exactly once; when the acknowledgement resolves the emission follows
  it, and when it throws nothing follows.
\<close>

theorem handler_acks_once_then_emits:
  assumes "trigger_dash this outcome tr0 = (Inr s, tr1)
           \<or> trigger_v2 this outcome tr0 = (Inr s, tr1)"
    and "(k, p, h) \<in> set (listeners (the_app s))"
  shows "(ack params = None \<and> (\<exists>d. snd (h params tr) = tr @ [Ack, Emit d]))
         \<or> (ack params \<noteq> None \<and> snd (h params tr) = tr @ [Ack])"
  using assms
  by (auto simp add: trigger_dash_run trigger_v2_run installed_app_def handler_dash_run
        handler_v2_run split: sum.splits option.splits if_splits)

theorem handler_acks_once_then_emits_witness:
  "trigger_dash sample_host None [] =
     (Inr sample_dash,
      sample_setup_calls @ [AppStart, LoggerInfo ''Started Slack Socket app in trigger mode''])
   \<and> (CommandListener, PString ''/deploy'', handler_dash) \<in> set (listeners (the_app sample_dash))
   \<and> (\<exists>d. snd (handler_dash (sample_args None) []) = [Ack, Emit d])
   \<and> snd (handler_dash (sample_args (Some (Error ''late''))) []) = [Ack]"
proof -
  have t: "trigger_dash sample_host None [] =
             (Inr sample_dash,
              sample_setup_calls @
                [AppStart, LoggerInfo ''Started Slack Socket app in trigger mode''])
           \<or> trigger_v2 sample_host None [] =
             (Inr sample_dash,
              sample_setup_calls @
                [AppStart, LoggerInfo ''Started Slack Socket app in trigger mode''])"
    by (simp add: trigger_dash_sample)
  have l: "(CommandListener, PString ''/deploy'', handler_dash)
             \<in> set (listeners (the_app sample_dash))"
    by (simp add: sample_dash_def sample_app_def)
  from handler_acks_once_then_emits [OF t l, of "sample_args None" "[]"]
    handler_acks_once_then_emits [OF t l, of "sample_args (Some (Error ''late''))" "[]"]
    l
  show ?thesis by (simp add: trigger_dash_sample sample_args_def)
qed

text \<open>
  C9. When the acknowledgement throws \<open>e\<close>, a handler that \<open>trigger\<close> registered, in
  either file, makes no emission and throws \<open>e\<close>.
\<close>

theorem ack_failure_prevents_emission:
  assumes "trigger_dash this outcome tr0 = (Inr s, tr1)
           \<or> trigger_v2 this outcome tr0 = (Inr s, tr1)"
    and "(k, p, h) \<in> set (listeners (the_app s))"
    and "ack params = Some e"
  shows "h params tr = (Inl e, tr @ [Ack])"
  using assms
  by (auto simp add: trigger_dash_run trigger_v2_run installed_app_def handler_dash_run
        handler_v2_run split: sum.splits option.splits if_splits)

theorem ack_failure_prevents_emission_witness:
  "trigger_v2 sample_host None [] =
     (Inr sample_v2,
      sample_setup_calls @ [AppStart, LoggerInfo ''Started Slack Socket app in trigger mode''])
   \<and> (CommandListener, PString ''/deploy'', handler_v2) \<in> set (listeners (the_app sample_v2))
   \<and> ack (sample_args (Some (Error ''late''))) = Some (Error ''late'')
   \<and> handler_v2 (sample_args (Some (Error ''late''))) [] = (Inl (Error ''late''), [Ack])"
proof -
  have t: "trigger_dash sample_host None [] =
             (Inr sample_v2,
              sample_setup_calls @
                [AppStart, LoggerInfo ''Started Slack Socket app in trigger mode''])
           \<or> trigger_v2 sample_host None [] =
             (Inr sample_v2,
              sample_setup_calls @
                [AppStart, LoggerInfo ''Started Slack Socket app in trigger mode''])"
    by (simp add: trigger_v2_sample)
  have l: "(CommandListener, PString ''/deploy'', handler_v2)
             \<in> set (listeners (the_app sample_v2))"
    by (simp add: sample_v2_def sample_app_def)
  have a: "ack (sample_args (Some (Error ''late''))) = Some (Error ''late'')"
    by (simp add: sample_args_def)
  from ack_failure_prevents_emission [OF t l a, of "[]"] l a
  show ?thesis by (simp add: trigger_v2_sample)
qed

text \<open>
  C6. When the acknowledgement resolves, a handler that \<open>trigger\<close> registered, in either
  file, emits one output holding one item, whose \<open>json\<close> has the four properties
  \<open>command\<close>, \<open>body\<close>, \<open>context\<close> and \<open>payload\<close> with the values the event carried
  under these names, and nothing else.
\<close>

theorem emission_forwards_four_fields_as_single_item:
  assumes "trigger_dash this outcome tr0 = (Inr s, tr1)
           \<or> trigger_v2 this outcome tr0 = (Inr s, tr1)"
    and "(k, p, h) \<in> set (listeners (the_app s))"
    and "ack params = None"
  shows "h params tr =
           (Inr (), tr @ [Ack, Emit [[\<lparr>json =
                   \<lparr>command = map_of (props params) ''command'',
                    body = map_of (props params) ''body'',
                    context_ = map_of (props params) ''context'',
                    payload = map_of (props params) ''payload''\<rparr>\<rparr>]]])"
  using assms
  by (auto simp add: trigger_dash_run trigger_v2_run installed_app_def handler_dash_run
        handler_v2_run split: sum.splits option.splits if_splits)

theorem emission_forwards_four_fields_as_single_item_witness:
  "trigger_dash sample_host None [] =
     (Inr sample_dash,
      sample_setup_calls @ [AppStart, LoggerInfo ''Started Slack Socket app in trigger mode''])
   \<and> (CommandListener, PString ''/deploy'', handler_dash) \<in> set (listeners (the_app sample_dash))
   \<and> ack (sample_args None) = None
   \<and> handler_dash (sample_args None) [] =
       (Inr (), [Ack, Emit [[\<lparr>json =
          \<lparr>command = Some (JObj [(''command'', JStr ''/deploy''), (''text'', JStr ''now'')]),
           body = Some (JObj [(''team_id'', JStr ''T1'')]),
           context_ = None,
           payload = None\<rparr>\<rparr>]]])"
proof -
  have t: "trigger_dash sample_host None [] =
             (Inr sample_dash,
              sample_setup_calls @
                [AppStart, LoggerInfo ''Started Slack Socket app in trigger mode''])
           \<or> trigger_v2 sample_host None [] =
             (Inr sample_dash,
              sample_setup_calls @
                [AppStart, LoggerInfo ''Started Slack Socket app in trigger mode''])"
    by (simp add: trigger_dash_sample)
  have l: "(CommandListener, PString ''/deploy'', handler_dash)
             \<in> set (listeners (the_app sample_dash))"
    by (simp add: sample_dash_def sample_app_def)
  have a: "ack (sample_args None) = None"
    by (simp add: sample_args_def)
  from emission_forwards_four_fields_as_single_item [OF t l a, of "[]"] l a
  show ?thesis by (simp add: trigger_dash_sample sample_args_def)
qed

subsection \<open>Listener registration\<close>

text \<open>
  C3. In either file \<open>trigger\<close> registers one command listener. When the parameter
  \<open>slashCommandName\<close> is a non-empty string, the listener is registered under that
  string and an inbound command runs the handler if and only if its name is that
  string; when the parameter is empty, the listener is registered under \<open>/.*/\<close> and
  every inbound command runs the handler.
\<close>

theorem slash_command_filter_selects_commands:
  "(trigger_dash this outcome tr0 = (Inr s, tr1) \<longrightarrow>
      listeners (the_app s) =
        [(CommandListener,
          (if parameter_value this ''slashCommandName'' [] \<noteq> []
           then PString (parameter_value this ''slashCommandName'' [])
           else PRegExp (RStar RDot)),
          handler_dash)]
      \<and> dispatch (the_app s) CommandListener cmd params tr =
          (if parameter_value this ''slashCommandName'' [] = [] \<or>
              cmd = parameter_value this ''slashCommandName'' []
           then handler_dash params tr else (Inr (), tr)))
   \<and> (trigger_v2 this outcome tr0 = (Inr s, tr1) \<longrightarrow>
      listeners (the_app s) =
        [(CommandListener,
          (if parameter_value this ''slashCommandName'' [] \<noteq> []
           then PString (parameter_value this ''slashCommandName'' [])
           else PRegExp (RStar RDot)),
          handler_v2)]
      \<and> dispatch (the_app s) CommandListener cmd params tr =
          (if parameter_value this ''slashCommandName'' [] = [] \<or>
              cmd = parameter_value this ''slashCommandName'' []
           then handler_v2 params tr else (Inr (), tr)))"
proof (intro conjI impI)
  assume "trigger_dash this outcome tr0 = (Inr s, tr1)"
  then obtain c where s: "the_app s = installed_app this c handler_dash"
    by (auto simp add: trigger_dash_run split: sum.splits option.splits if_splits)
  show "listeners (the_app s) =
        [(CommandListener,
          (if parameter_value this ''slashCommandName'' [] \<noteq> []
           then PString (parameter_value this ''slashCommandName'' [])
           else PRegExp (RStar RDot)),
          handler_dash)]"
    by (simp add: s installed_app_def)
  show "dispatch (the_app s) CommandListener cmd params tr =
          (if parameter_value this ''slashCommandName'' [] = [] \<or>
              cmd = parameter_value this ''slashCommandName'' []
           then handler_dash params tr else (Inr (), tr))"
    by (simp add: s dispatch_installed_app)
next
  assume "trigger_v2 this outcome tr0 = (Inr s, tr1)"
  then obtain c where s: "the_app s = installed_app this c handler_v2"
    by (auto simp add: trigger_v2_run split: sum.splits option.splits if_splits)
  show "listeners (the_app s) =
        [(CommandListener,
          (if parameter_value this ''slashCommandName'' [] \<noteq> []
           then PString (parameter_value this ''slashCommandName'' [])
           else PRegExp (RStar RDot)),
          handler_v2)]"
    by (simp add: s installed_app_def)
  show "dispatch (the_app s) CommandListener cmd params tr =
          (if parameter_value this ''slashCommandName'' [] = [] \<or>
              cmd = parameter_value this ''slashCommandName'' []
           then handler_v2 params tr else (Inr (), tr))"
    by (simp add: s dispatch_installed_app)
qed

theorem slash_command_filter_selects_commands_witness:
  "listeners (the_app sample_dash) = [(CommandListener, PString ''/deploy'', handler_dash)]
   \<and> dispatch (the_app sample_dash) CommandListener ''/deploy'' (sample_args None) [] =
       handler_dash (sample_args None) []
   \<and> dispatch (the_app sample_v2) CommandListener ''/other'' (sample_args None) [] = (Inr (), [])
   \<and> listeners (the_app events_v2) = [(CommandListener, PRegExp (RStar RDot), handler_v2)]
   \<and> dispatch (the_app events_v2) CommandListener ''/other'' (sample_args None) [] =
       handler_v2 (sample_args None) []"
  using slash_command_filter_selects_commands
      [where this = sample_host and outcome = None and ?tr0.0 = "[]" and s = sample_dash
         and cmd = "''/deploy''" and params = "sample_args None" and tr = "[]"]
    slash_command_filter_selects_commands
      [where this = sample_host and outcome = None and ?tr0.0 = "[]" and s = sample_v2
         and cmd = "''/other''" and params = "sample_args None" and tr = "[]"]
    slash_command_filter_selects_commands
      [where this = events_host and outcome = None and ?tr0.0 = "[]" and s = events_v2
         and cmd = "''/other''" and params = "sample_args None" and tr = "[]"]
  by (simp add: trigger_dash_sample trigger_v2_sample trigger_v2_events sample_host_simps
        events_host_simps)

text \<open>
  C4. With the trigger type \<open>events\<close> selected, \<open>trigger\<close> of either file registers a
  command listener and no other: an inbound event of the kind \<open>events\<close> reaches no
  handler, nothing is acknowledged and nothing is emitted.
\<close>

theorem events_trigger_type_registers_command_listener_only:
  "parameter_value events_host ''triggerType'' ''slashCommand'' = ''events''
   \<and> trigger_dash events_host None [] =
       (Inr events_dash,
        events_setup_calls @ [AppStart, LoggerInfo ''Started Slack Socket app in trigger mode''])
   \<and> map fst (listeners (the_app events_dash)) = [CommandListener]
   \<and> dispatch (the_app events_dash) EventListener ''app_mention'' (sample_args None) [] =
       (Inr (), [])
   \<and> trigger_v2 events_host None [] =
       (Inr events_v2,
        events_setup_calls @ [AppStart, LoggerInfo ''Started Slack Socket app in trigger mode''])
   \<and> map fst (listeners (the_app events_v2)) = [CommandListener]
   \<and> dispatch (the_app events_v2) EventListener ''app_mention'' (sample_args None) [] =
       (Inr (), [])"
  by (simp add: events_host_simps trigger_dash_events trigger_v2_events events_dash_def
        events_v2_def dispatch_events_app)
    (simp add: events_app_def)

subsection \<open>Teardown\<close>

text \<open>
  C5. The \<open>closeFunction\<close> that \<open>trigger\<close> returns, in either file, calls \<open>app.stop\<close>
  whatever the calls made before and whatever the outcome of the start, logs the
  outcome of the stop, and never throws.
\<close>

theorem closeFunction_always_stops_never_throws:
  assumes "trigger_dash this outcome tr0 = (Inr s, tr1)
           \<or> trigger_v2 this outcome tr0 = (Inr s, tr1)"
  shows "closeFunction (response s) stop_outcome tr =
           (Inr (), tr @ [AppStop,
              (case stop_outcome of
                 None \<Rightarrow> LoggerInfo ''Stopped Slack Socket app''
               | Some e \<Rightarrow> LoggerError ''Error stopping Slack Socket app:'' e)])"
  using assms
  by (auto simp add: trigger_dash_run trigger_v2_run closeFunction_dash_run closeFunction_v2_run
        split: sum.splits option.splits if_splits)

theorem closeFunction_always_stops_never_throws_witness:
  "trigger_v2 sample_host None [] =
     (Inr sample_v2,
      sample_setup_calls @ [AppStart, LoggerInfo ''Started Slack Socket app in trigger mode''])
   \<and> closeFunction (response sample_v2) (Some (Error ''gone'')) [] =
       (Inr (), [AppStop, LoggerError ''Error stopping Slack Socket app:'' (Error ''gone'')])"
proof -
  have t: "trigger_dash sample_host None [] =
             (Inr sample_v2,
              sample_setup_calls @
                [AppStart, LoggerInfo ''Started Slack Socket app in trigger mode''])
           \<or> trigger_v2 sample_host None [] =
             (Inr sample_v2,
              sample_setup_calls @
                [AppStart, LoggerInfo ''Started Slack Socket app in trigger mode''])"
    by (simp add: trigger_v2_sample)
  from closeFunction_always_stops_never_throws [OF t, of "Some (Error ''gone'')" "[]"]
  show ?thesis by (simp add: trigger_v2_sample)
qed

subsection \<open>The two files side by side\<close>

lemma run_step_same:
  assumes "start_succeeds st"
  shows "run_step \<lparr>response = \<lparr>closeFunction = closeFunction_dash,
                               manualTriggerFunction = manualTriggerFunction_dash\<rparr>,
                  the_app = a\<rparr> st tr =
         run_step \<lparr>response = \<lparr>closeFunction = closeFunction_v2,
                               manualTriggerFunction = manualTriggerFunction_v2\<rparr>,
                  the_app = a\<rparr> st tr"
  using assms
  by (cases st)
    (simp_all add: closeFunction_v2_dash manualTriggerFunction_dash_run
       manualTriggerFunction_v2_run)

lemma run_steps_same:
  assumes "list_all start_succeeds steps"
  shows "run_steps \<lparr>response = \<lparr>closeFunction = closeFunction_dash,
                               manualTriggerFunction = manualTriggerFunction_dash\<rparr>,
                  the_app = a\<rparr> steps tr =
         run_steps \<lparr>response = \<lparr>closeFunction = closeFunction_v2,
                               manualTriggerFunction = manualTriggerFunction_v2\<rparr>,
                  the_app = a\<rparr> steps tr"
  using assms
proof (induction steps arbitrary: tr)
  case Nil
  show ?case by simp
next
  case (Cons st steps)
  then show ?case by (simp add: run_step_same split: prod.split)
qed

text \<open>
  C7, as amended. The two files behave alike over every use of the node in which no
  \<open>app.start()\<close> that is made fails: for every credential outcome, configuration and
  mode, and every sequence of manual triggers whose start resolves, of close calls with
  any outcome and of inbound events with any acknowledgement outcome, \<open>trigger\<close> and
  all later steps give the same results and make the same calls in the same order.
\<close>

theorem files_agree_while_start_succeeds:
  assumes "mode this = ''trigger'' \<longrightarrow> outcome = None"
    and "list_all start_succeeds steps"
  shows "observe trigger_dash this outcome steps = observe trigger_v2 this outcome steps"
proof (cases "credentials this")
  case (Inl e)
  then show ?thesis by (simp add: observe_def trigger_dash_run trigger_v2_run)
next
  case (Inr c)
  with assms(1) show ?thesis
    by (auto simp add: observe_def trigger_dash_run trigger_v2_run handler_v2_dash
          run_steps_same [OF assms(2)] split: option.splits)
qed

theorem files_agree_while_start_succeeds_witness:
  "mode sample_host = ''trigger''
   \<and> list_all start_succeeds
       [Inbound CommandListener ''/deploy'' (sample_args None), ManualTrigger None,
        Inbound CommandListener ''/deploy'' (sample_args (Some (Error ''late''))),
        Close (Some (Error ''gone''))]
   \<and> observe trigger_dash sample_host None
       [Inbound CommandListener ''/deploy'' (sample_args None), ManualTrigger None,
        Inbound CommandListener ''/deploy'' (sample_args (Some (Error ''late''))),
        Close (Some (Error ''gone''))] =
     observe trigger_v2 sample_host None
       [Inbound CommandListener ''/deploy'' (sample_args None), ManualTrigger None,
        Inbound CommandListener ''/deploy'' (sample_args (Some (Error ''late''))),
        Close (Some (Error ''gone''))]"
proof -
  have m: "mode sample_host = ''trigger'' \<longrightarrow> (None :: error option) = None" by simp
  have l: "list_all start_succeeds
       [Inbound CommandListener ''/deploy'' (sample_args None), ManualTrigger None,
        Inbound CommandListener ''/deploy'' (sample_args (Some (Error ''late''))),
        Close (Some (Error ''gone''))]" by simp
  from files_agree_while_start_succeeds [OF m l] l
  show ?thesis by (simp add: sample_host_simps)
qed

text \<open>
  C7, as stated, fails: in trigger mode with a failing start the first file throws and
  the second returns.
\<close>

theorem files_differ_on_start_failure:
  "observe trigger_dash sample_host (Some (Error ''boom'')) []
   \<noteq> observe trigger_v2 sample_host (Some (Error ''boom'')) []"
  by (simp add: observe_def trigger_dash_run trigger_v2_run sample_host_simps)

subsection \<open>Order of registration and start\<close>

lemma registered_before_start_True: "registered_before_start True cs"
  by (induction cs) (simp_all split: call.split)

lemma registered_before_start_append:
  assumes "registered_before_start b xs" and "b \<or> (\<exists>p. AppCommand p \<in> set xs)"
  shows "registered_before_start b (xs @ ys)"
  using assms
proof (induction xs arbitrary: b)
  case Nil
  then show ?case by (simp add: registered_before_start_True)
next
  case (Cons x xs)
  then show ?case
    by (cases x) (auto simp add: registered_before_start_True)
qed

lemma registered_before_start_setup_calls:
  "registered_before_start False (setup_calls this c @ ys)"
  by (simp add: setup_calls_def registered_before_start_True)

lemma start_before_registration_rejected:
  "\<not> registered_before_start False (AppStart # cs)"
  by simp

lemma run_step_extends:
  assumes "the_app s = installed_app this c handler_dash"
    and "closeFunction (response s) = closeFunction_dash"
    and "manualTriggerFunction (response s) = manualTriggerFunction_dash
         \<or> manualTriggerFunction (response s) = manualTriggerFunction_v2"
  shows "\<exists>new. snd (run_step s st tr) = tr @ new"
proof (cases st)
  case (ManualTrigger outcome)
  with assms(3) show ?thesis
    by (auto simp add: manualTriggerFunction_dash_run manualTriggerFunction_v2_run
          split: option.split)
next
  case (Close outcome)
  with assms(2) show ?thesis by (simp add: closeFunction_dash_run)
next
  case (Inbound k name params)
  with assms(1) show ?thesis
    by (simp add: dispatch_installed_app handler_dash_run split: option.split)
qed

lemma run_steps_extends:
  assumes "the_app s = installed_app this c handler_dash"
    and "closeFunction (response s) = closeFunction_dash"
    and "manualTriggerFunction (response s) = manualTriggerFunction_dash
         \<or> manualTriggerFunction (response s) = manualTriggerFunction_v2"
  shows "\<exists>new. snd (run_steps s steps tr) = tr @ new"
proof (induction steps arbitrary: tr)
  case Nil
  show ?case by simp
next
  case (Cons st steps)
  obtain r tr' where st: "run_step s st tr = (r, tr')" by (cases "run_step s st tr")
  from run_step_extends [OF assms, of st tr] st obtain n1 where n1: "tr' = tr @ n1" by auto
  from Cons.IH [of tr'] obtain n2 where n2: "snd (run_steps s steps tr') = tr' @ n2" by auto
  show ?case
    using st n1 n2 by (auto split: prod.split)
qed

lemma observe_trace_dash:
  "registered_before_start False (snd (snd (observe trigger_dash this outcome steps)))"
proof (cases "credentials this")
  case (Inl e)
  then show ?thesis by (simp add: observe_def trigger_dash_run)
next
  case (Inr c)
  let ?s = "\<lparr>response = \<lparr>closeFunction = closeFunction_dash,
                           manualTriggerFunction = manualTriggerFunction_dash\<rparr>,
              the_app = installed_app this c handler_dash\<rparr>"
  have ext: "\<exists>new. snd (run_steps ?s steps tr) = tr @ new" for tr
    by (rule run_steps_extends [of ?s this c]) simp_all
  show ?thesis
  proof (cases "mode this = ''trigger''")
    case True
    show ?thesis
    proof (cases outcome)
      case None
      from ext [of "setup_calls this c @
          [AppStart, LoggerInfo ''Started Slack Socket app in trigger mode'']"]
      show ?thesis
        using Inr True None
        by (auto simp add: observe_def trigger_dash_run registered_before_start_setup_calls
              split: prod.split)
    next
      case (Some e)
      then show ?thesis
        using Inr True
        by (simp add: observe_def trigger_dash_run registered_before_start_setup_calls)
    qed
  next
    case False
    from ext [of "setup_calls this c"] show ?thesis
      using Inr False
      by (auto simp add: observe_def trigger_dash_run registered_before_start_setup_calls
            split: prod.split)
  qed
qed

lemma observe_trace_v2:
  "registered_before_start False (snd (snd (observe trigger_v2 this outcome steps)))"
proof (cases "credentials this")
  case (Inl e)
  then show ?thesis by (simp add: observe_def trigger_v2_run)
next
  case (Inr c)
  let ?s = "\<lparr>response = \<lparr>closeFunction = closeFunction_v2,
                           manualTriggerFunction = manualTriggerFunction_v2\<rparr>,
              the_app = installed_app this c handler_v2\<rparr>"
  let ?tr = "setup_calls this c @
             (if mode this = ''trigger''
              then [AppStart,
                    (case outcome of
                       None \<Rightarrow> LoggerInfo ''Started Slack Socket app in trigger mode''
                     | Some e \<Rightarrow>
                         LoggerError ''Error starting Slack Socket app in trigger mode:'' e)]
              else [])"
  have "\<exists>new. snd (run_steps ?s steps ?tr) = ?tr @ new"
    by (rule run_steps_extends [of ?s this c])
      (simp_all add: handler_v2_dash closeFunction_v2_dash)
  then obtain new where "snd (run_steps ?s steps ?tr) = ?tr @ new" ..
  moreover have "registered_before_start False (?tr @ new)"
    by (simp add: registered_before_start_setup_calls)
  ultimately show ?thesis
    using Inr by (simp add: observe_def trigger_v2_run split: prod.split)
qed

text \<open>
  C8. In either file, over every use of the node (any mode, any outcome of any call,
  any sequence of manual triggers, close calls and inbound events), no \<open>app.start\<close> is
  called before \<open>app.command\<close> has been.
\<close>

theorem listener_registered_before_start:
  "registered_before_start False (snd (snd (observe trigger_dash this outcome steps)))
   \<and> registered_before_start False (snd (snd (observe trigger_v2 this outcome steps)))"
  by (simp add: observe_trace_dash observe_trace_v2)

end
